theory Spec2Isabelle
  imports Complex_Main "HOL-Library.Word"
begin

section \<open>The LSM6DS3 sensor of the SlimeVR tracker firmware\<close>

text \<open>
  A shallow embedding of \<^verbatim>\<open>src/sensors/LSM6DS3sensor.cpp\<close>: the four member functions
  \<^verbatim>\<open>motionSetup\<close>, \<^verbatim>\<open>motionLoop\<close>, \<^verbatim>\<open>getScaledValues\<close> and \<^verbatim>\<open>startCalibration\<close> of
  \<^verbatim>\<open>LSM6DS3Sensor\<close>, as functions on an explicit state. The state holds the members of the
  sensor object, the device behind \<^verbatim>\<open>imu\<close>, the global configuration store, and a trace of
  every call the code makes to the logger, the LED manager, the network and \<^verbatim>\<open>delay\<close>.
\<close>

subsection \<open>Floating point\<close>

text \<open>
  A finite \<^verbatim>\<open>float\<close> is modelled by the real number it denotes. Every arithmetic operation
  rounds its exact result with \<open>rnd\<close>, the rounding function of the target's binary32
  format, which is a parameter of the model: what is proved holds for every rounding function.
  Negation, comparison, the literals \<^verbatim>\<open>0.75f\<close>, \<^verbatim>\<open>-0.75f\<close>, \<^verbatim>\<open>0\<close> and the conversion of
  an \<^verbatim>\<open>int16_t\<close> or of the constant 300 are exact in binary32 and are modelled without
  rounding. Overflow to infinity and NaN are outside the model.
\<close>

type_synonym float = real

definition float_of_int16 :: "16 word \<Rightarrow> float" where
  "float_of_int16 v = real_of_int (sint v)"

subsection \<open>Data\<close>

text \<open>One result of \<^verbatim>\<open>imu.getMotion6(&ax, &ay, &az, &gx, &gy, &gz)\<close>.\<close>

record raw6 =
  r_ax :: "16 word"
  r_ay :: "16 word"
  r_az :: "16 word"
  r_gx :: "16 word"
  r_gy :: "16 word"
  r_gz :: "16 word"

text \<open>
  The device behind \<^verbatim>\<open>imu\<close>. Its driver is not part of the file; the model keeps what
  the sensor code reads from it. \<open>samples d n\<close> is what the \<open>n\<close>-th read of the motion
  registers observes (the first read has number 0), \<open>reads d\<close> counts the reads made so
  far; \<^verbatim>\<open>getMotion6\<close> and \<^verbatim>\<open>getRawAccelZ\<close> each make one read.
\<close>

record imu_dev =
  samples :: "nat \<Rightarrow> raw6"
  reads :: nat
  testConnection :: bool
  getDeviceID :: "8 word"
  getTemperature :: float
  gscale :: float
  accelRange :: nat

text \<open>\<^verbatim>\<open>Quat\<close>, as \<^verbatim>\<open>quaternion.set(x, y, z, w)\<close> fills it.\<close>

record quat =
  qx :: float
  qy :: float
  qz :: float
  qw :: float

text \<open>
  \<^verbatim>\<open>SlimeVR::Configuration::LSM6DS3CalibrationConfig\<close>: the arrays \<^verbatim>\<open>G_off[3]\<close>,
  \<^verbatim>\<open>A_B[3]\<close> and \<^verbatim>\<open>A_Ainv[3][3]\<close>, each a function from the index.
\<close>

record LSM6DS3CalibrationConfig =
  G_off :: "nat \<Rightarrow> float"
  A_B :: "nat \<Rightarrow> float"
  A_Ainv :: "nat \<Rightarrow> nat \<Rightarrow> float"

text \<open>
  \<^verbatim>\<open>CalibrationConfigType\<close> and \<^verbatim>\<open>CalibrationConfig\<close>. The code names the tags
  \<^verbatim>\<open>LSM6DS3\<close> and \<^verbatim>\<open>NONE\<close>; every other tag is \<open>OTHER n\<close>. The union \<^verbatim>\<open>data\<close> is
  only ever read and written through its member \<^verbatim>\<open>lsm6ds3\<close>.
\<close>

datatype CalibrationConfigType = NONE | LSM6DS3 | OTHER nat

record CalibrationConfig =
  type :: CalibrationConfigType
  data_lsm6ds3 :: LSM6DS3CalibrationConfig

datatype log_level = FATAL | WARN | INFO | DEBUG | TRACE

datatype log_arg = ArgI int | ArgF float

datatype calibration_tag =
  CALIBRATION_TYPE_EXTERNAL_GYRO | CALIBRATION_TYPE_EXTERNAL_ACCEL | CALIBRATION_TYPE_EXTERNAL_ALL

text \<open>
  The calls to the collaborators, in the order the code makes them.
  \<^verbatim>\<open>Network::sendRawCalibrationData(v, tag, id)\<close> takes a pointer \<^verbatim>\<open>v\<close> to floats and
  transmits \<^verbatim>\<open>v[0]\<close>, \<^verbatim>\<open>v[1]\<close>, \<^verbatim>\<open>v[2]\<close>.
\<close>

datatype event =
  Log log_level string "log_arg list"
  | Delay nat
  | LedOn
  | LedOff
  | LedPattern nat nat nat
  | SendTemperature float "8 word"
  | SendInspectionRawIMUData "8 word" raw6
  | SendInspectionFusedIMUData "8 word" quat
  | SendRawCalibrationData float float float calibration_tag nat
  | SendCalibrationFinished calibration_tag nat
  | ConfigSave

text \<open>
  The sensor object with the globals it touches. \<open>last_t\<close> is the member \<^verbatim>\<open>last\<close>.
  The header that declares the members is not part of the file: \<^verbatim>\<open>now\<close> and \<^verbatim>\<open>last\<close> are
  taken as 32-bit time stamps in microseconds, as \<^verbatim>\<open>micros()\<close> returns them, and
  \<^verbatim>\<open>deltat\<close> as a float.
\<close>

record sensor =
  addr :: "8 word"
  sensorId :: "8 word"
  imu :: imu_dev
  m_Calibration :: LSM6DS3CalibrationConfig
  q :: "nat \<Rightarrow> float"
  quaternion :: quat
  sensorOffset :: quat
  lastQuatSent :: quat
  newData :: bool
  working :: bool
  now :: "32 word"
  last_t :: "32 word"
  deltat :: float
  configuration :: "8 word \<Rightarrow> CalibrationConfig"
  trace :: "event list"

text \<open>
  What the file uses and does not define: the rounding of floats and doubles, the macros
  of the build (\<^verbatim>\<open>OPTIMIZE_UPDATES\<close>, \<^verbatim>\<open>ENABLE_INSPECTION\<close>, \<^verbatim>\<open>DEBUG_SENSOR\<close>), the two
  fusion filters (which update \<^verbatim>\<open>q\<close> in place), \<^verbatim>\<open>Quat::operator*=\<close>
  (\<open>quat_mul a b\<close> is the value of \<^verbatim>\<open>a\<close> after \<^verbatim>\<open>a *= b\<close>),
  \<^verbatim>\<open>Quat::equalsWithEpsilon\<close> (\<open>equalsWithEpsilon a b\<close> is \<^verbatim>\<open>a.equalsWithEpsilon(b)\<close>),
  the ellipsoid fit \<^verbatim>\<open>CalculateCalibration\<close> (from the sample buffer and the sample count
  to the 4x3 result), \<^verbatim>\<open>imu.initialize\<close>, and the contents of freshly allocated
  memory. They are parameters.
\<close>

record env =
  rnd :: "real \<Rightarrow> float"
  rnd_double :: "real \<Rightarrow> real"
  OPTIMIZE_UPDATES :: bool
  ENABLE_INSPECTION :: bool
  DEBUG_SENSOR :: bool
  mahonyQuaternionUpdate ::
    "(nat \<Rightarrow> float) \<Rightarrow> float \<Rightarrow> float \<Rightarrow> float \<Rightarrow> float \<Rightarrow> float \<Rightarrow> float \<Rightarrow> float \<Rightarrow> (nat \<Rightarrow> float)"
  madgwickQuaternionUpdate ::
    "(nat \<Rightarrow> float) \<Rightarrow> float \<Rightarrow> float \<Rightarrow> float \<Rightarrow> float \<Rightarrow> float \<Rightarrow> float \<Rightarrow> float \<Rightarrow> (nat \<Rightarrow> float)"
  quat_mul :: "quat \<Rightarrow> quat \<Rightarrow> quat"
  equalsWithEpsilon :: "quat \<Rightarrow> quat \<Rightarrow> bool"
  CalculateCalibration :: "(nat \<Rightarrow> float) \<Rightarrow> nat \<Rightarrow> (nat \<Rightarrow> nat \<Rightarrow> float)"
  imu_initialize :: "8 word \<Rightarrow> imu_dev \<Rightarrow> imu_dev"
  malloc_contents :: "nat \<Rightarrow> float"

definition fadd :: "env \<Rightarrow> float \<Rightarrow> float \<Rightarrow> float" where
  "fadd e a b = rnd e (a + b)"

definition fsub :: "env \<Rightarrow> float \<Rightarrow> float \<Rightarrow> float" where
  "fsub e a b = rnd e (a - b)"

definition fmul :: "env \<Rightarrow> float \<Rightarrow> float \<Rightarrow> float" where
  "fmul e a b = rnd e (a * b)"

definition fdiv :: "env \<Rightarrow> float \<Rightarrow> float \<Rightarrow> float" where
  "fdiv e a b = rnd e (a / b)"

text \<open>The macros the file defines itself.\<close>

definition DISABLE_ASCALE :: bool where
  "DISABLE_ASCALE = True"

definition MADGWICK :: bool where
  "MADGWICK = False"

definition FORCE_CALIBRATION :: bool where
  "FORCE_CALIBRATION = False"

subsection \<open>Collaborators\<close>

definition emit :: "event \<Rightarrow> sensor \<Rightarrow> sensor" where
  "emit ev s = s\<lparr>trace := trace s @ [ev]\<rparr>"

definition getMotion6 :: "sensor \<Rightarrow> raw6 \<times> sensor" where
  "getMotion6 s =
     (samples (imu s) (reads (imu s)), s\<lparr>imu := (imu s)\<lparr>reads := Suc (reads (imu s))\<rparr>\<rparr>)"

definition getRawAccelZ :: "sensor \<Rightarrow> 16 word \<times> sensor" where
  "getRawAccelZ s =
     (r_az (samples (imu s) (reads (imu s))), s\<lparr>imu := (imu s)\<lparr>reads := Suc (reads (imu s))\<rparr>\<rparr>)"

subsection \<open>\<^verbatim>\<open>getScaledValues\<close>\<close>

text \<open>
  The accelerometer sensitivity of the branch that \<^verbatim>\<open>DISABLE_ASCALE\<close> compiles out:
  \<^verbatim>\<open>(float)a * 0.061 * (imu.settings.accelRange >> 1) / 1000\<close>, computed in double and
  stored as a float.
\<close>

definition ascale :: "env \<Rightarrow> imu_dev \<Rightarrow> 16 word \<Rightarrow> float" where
  "ascale e d a =
     rnd e (rnd_double e (rnd_double e (rnd_double e (float_of_int16 a * rnd_double e (61 / 1000))
       * real (accelRange d div 2)) / 1000))"

definition getScaledValues :: "env \<Rightarrow> sensor \<Rightarrow> (nat \<Rightarrow> float) \<times> sensor" where
  "getScaledValues e s0 =
    (let AGxyz = (\<lambda>_. 0);
         s1 = (if ENABLE_INSPECTION e
               then (let (r, s) = getMotion6 s0 in emit (SendInspectionRawIMUData (sensorId s) r) s)
               else s0);
         (r, s2) = getMotion6 s1;
         AGxyz = (if DISABLE_ASCALE
                  then AGxyz(0 := float_of_int16 (r_ax r),
                             1 := float_of_int16 (r_ay r),
                             2 := float_of_int16 (r_az r))
                  else AGxyz(0 := ascale e (imu s2) (r_ax r),
                             1 := ascale e (imu s2) (r_ay r),
                             2 := ascale e (imu s2) (r_az r)));
         AGxyz = AGxyz(3 := fmul e (fsub e (float_of_int16 (r_gx r)) (G_off (m_Calibration s2) 0)) (gscale (imu s2)));
         AGxyz = AGxyz(4 := fmul e (fsub e (float_of_int16 (r_gy r)) (G_off (m_Calibration s2) 1)) (gscale (imu s2)));
         AGxyz = AGxyz(5 := fmul e (fsub e (float_of_int16 (r_gz r)) (G_off (m_Calibration s2) 2)) (gscale (imu s2)))
     in (AGxyz, s2))"

subsection \<open>\<^verbatim>\<open>startCalibration\<close>\<close>

definition calibrationSamples :: nat where
  "calibrationSamples = 300"

text \<open>
  The first loop: \<^verbatim>\<open>for (int i = 0; i < calibrationSamples; i++)\<close>, reading the device and
  adding each gyroscope value to \<^verbatim>\<open>Gxyz\<close>.
\<close>

function gyro_loop :: "env \<Rightarrow> nat \<Rightarrow> (nat \<Rightarrow> float) \<Rightarrow> sensor \<Rightarrow> (nat \<Rightarrow> float) \<times> sensor" where
  "gyro_loop e i Gxyz s =
     (if i < calibrationSamples
      then (let (r, s1) = getMotion6 s;
                Gxyz = Gxyz(0 := fadd e (Gxyz 0) (float_of_int16 (r_gx r)));
                Gxyz = Gxyz(1 := fadd e (Gxyz 1) (float_of_int16 (r_gy r)));
                Gxyz = Gxyz(2 := fadd e (Gxyz 2) (float_of_int16 (r_gz r)))
            in gyro_loop e (i + 1) Gxyz s1)
      else (Gxyz, s))"
  by pat_completeness auto
termination
  by (relation "measure (\<lambda>(e, i, Gxyz, s). calibrationSamples - i)") auto

declare gyro_loop.simps [simp del]

text \<open>
  The second loop, filling \<^verbatim>\<open>calibrationDataAcc\<close>. Each round passes the buffer itself to
  \<^verbatim>\<open>sendRawCalibrationData\<close>, which transmits its first three floats.
\<close>

function accel_loop :: "env \<Rightarrow> nat \<Rightarrow> (nat \<Rightarrow> float) \<Rightarrow> sensor \<Rightarrow> (nat \<Rightarrow> float) \<times> sensor" where
  "accel_loop e i calibrationDataAcc s =
     (if i < calibrationSamples
      then (let (r, s1) = getMotion6 s;
                calibrationDataAcc = calibrationDataAcc(i * 3 + 0 := float_of_int16 (r_ax r));
                calibrationDataAcc = calibrationDataAcc(i * 3 + 1 := float_of_int16 (r_ay r));
                calibrationDataAcc = calibrationDataAcc(i * 3 + 2 := float_of_int16 (r_az r));
                s2 = emit (SendRawCalibrationData (calibrationDataAcc 0) (calibrationDataAcc 1)
                             (calibrationDataAcc 2) CALIBRATION_TYPE_EXTERNAL_ACCEL 0) s1;
                s3 = emit LedOff s2;
                s4 = emit (Delay 250) s3
            in accel_loop e (i + 1) calibrationDataAcc s4)
      else (calibrationDataAcc, s))"
  by pat_completeness auto
termination
  by (relation "measure (\<lambda>(e, i, buf, s). calibrationSamples - i)") auto

declare accel_loop.simps [simp del]

text \<open>The third loop, \<^verbatim>\<open>for (int i = 0; i < 3; i++)\<close>, copying the fit into the record.\<close>

function copy_loop :: "nat \<Rightarrow> (nat \<Rightarrow> nat \<Rightarrow> float) \<Rightarrow> sensor \<Rightarrow> sensor" where
  "copy_loop i A_BAinv s =
     (if i < 3
      then (let c = m_Calibration s;
                c = c\<lparr>A_B := (A_B c)(i := A_BAinv 0 i)\<rparr>;
                c = c\<lparr>A_Ainv := (A_Ainv c)(0 := (A_Ainv c 0)(i := A_BAinv 1 i))\<rparr>;
                c = c\<lparr>A_Ainv := (A_Ainv c)(1 := (A_Ainv c 1)(i := A_BAinv 2 i))\<rparr>;
                c = c\<lparr>A_Ainv := (A_Ainv c)(2 := (A_Ainv c 2)(i := A_BAinv 3 i))\<rparr>;
                s1 = s\<lparr>m_Calibration := c\<rparr>;
                s2 = emit (Log DEBUG ''  %f, %f, %f, %f''
                             [ArgF (A_BAinv 0 i), ArgF (A_BAinv 1 i), ArgF (A_BAinv 2 i), ArgF (A_BAinv 3 i)]) s1
            in copy_loop (i + 1) A_BAinv s2)
      else s)"
  by pat_completeness auto
termination
  by (relation "measure (\<lambda>(i, m, s). 3 - i)") auto

declare copy_loop.simps [simp del]

definition startCalibration :: "env \<Rightarrow> int \<Rightarrow> sensor \<Rightarrow> sensor" where
  "startCalibration e calibrationType s0 =
    (let s = emit LedOn s0;
         s = emit (Log DEBUG ''Gathering raw data for device calibration...'' []) s;
         Gxyz = (\<lambda>_. 0);
         s = emit (Log INFO ''Put down the device and wait for baseline gyro reading calibration'' []) s;
         s = emit (Delay 2000) s;
         (Gxyz, s) = gyro_loop e 0 Gxyz s;
         Gxyz = Gxyz(0 := fdiv e (Gxyz 0) (real calibrationSamples));
         Gxyz = Gxyz(1 := fdiv e (Gxyz 1) (real calibrationSamples));
         Gxyz = Gxyz(2 := fdiv e (Gxyz 2) (real calibrationSamples));
         s = (if DEBUG_SENSOR e
              then emit (Log TRACE ''Gyro calibration results: %f %f %f''
                           [ArgF (Gxyz 0), ArgF (Gxyz 1), ArgF (Gxyz 2)]) s
              else s);
         s = emit (SendRawCalibrationData (Gxyz 0) (Gxyz 1) (Gxyz 2) CALIBRATION_TYPE_EXTERNAL_GYRO 0) s;
         s = s\<lparr>m_Calibration := (m_Calibration s)\<lparr>G_off := (G_off (m_Calibration s))(0 := Gxyz 0)\<rparr>\<rparr>;
         s = s\<lparr>m_Calibration := (m_Calibration s)\<lparr>G_off := (G_off (m_Calibration s))(1 := Gxyz 1)\<rparr>\<rparr>;
         s = s\<lparr>m_Calibration := (m_Calibration s)\<lparr>G_off := (G_off (m_Calibration s))(2 := Gxyz 2)\<rparr>\<rparr>;
         s = emit (Log INFO ''Gently rotate the device while it's gathering accelerometer data'' []) s;
         s = emit (LedPattern 15 300 (3000 div 310)) s;
         (calibrationDataAcc, s) = accel_loop e 0 (malloc_contents e) s;
         s = emit (Log DEBUG ''Calculating calibration data...'' []) s;
         A_BAinv = CalculateCalibration e calibrationDataAcc calibrationSamples;
         s = emit (Log DEBUG ''Finished Calculate Calibration data'' []) s;
         s = emit (Log DEBUG ''Accelerometer calibration matrix:'' []) s;
         s = emit (Log DEBUG ''{'' []) s;
         s = copy_loop 0 A_BAinv s;
         s = emit (Log DEBUG ''}'' []) s;
         s = emit (Log DEBUG ''Saving the calibration data'' []) s;
         calibration = \<lparr>type = LSM6DS3, data_lsm6ds3 = m_Calibration s\<rparr>;
         s = s\<lparr>configuration := (configuration s)(sensorId s := calibration)\<rparr>;
         s = emit ConfigSave s;
         s = emit LedOff s;
         s = emit (SendCalibrationFinished CALIBRATION_TYPE_EXTERNAL_ALL 0) s;
         s = emit (Log DEBUG ''Saved the calibration data'' []) s;
         s = emit (Log INFO ''Calibration data gathered'' []) s
     in s)"

text \<open>
  The mean of one axis over the next 300 reads of the device, as float arithmetic computes
  it: the values are added in reading order, starting from 0, and the sum is divided by 300.
\<close>

definition gyro_sum :: "env \<Rightarrow> (raw6 \<Rightarrow> 16 word) \<Rightarrow> sensor \<Rightarrow> float" where
  "gyro_sum e axis s =
     foldl (fadd e) 0 (map (\<lambda>n. float_of_int16 (axis (samples (imu s) n)))
       [reads (imu s)..<reads (imu s) + 300])"

definition gyro_mean :: "env \<Rightarrow> (raw6 \<Rightarrow> 16 word) \<Rightarrow> sensor \<Rightarrow> float" where
  "gyro_mean e axis s = fdiv e (gyro_sum e axis s) 300"

text \<open>The calibration packets tagged as external gyro.\<close>

fun is_external_gyro :: "event \<Rightarrow> bool" where
  "is_external_gyro (SendRawCalibrationData a b c tag n) = (tag = CALIBRATION_TYPE_EXTERNAL_GYRO)"
| "is_external_gyro _ = False"

subsection \<open>\<^verbatim>\<open>motionSetup\<close>\<close>

text \<open>
  The flip gesture, from \<^verbatim>\<open>int16_t az;\<close> to the end of the \<^verbatim>\<open>if (g_az < -0.75f)\<close>
  statement. \<^verbatim>\<open>g_az\<close> is assigned once, from the first read; the second read writes
  \<^verbatim>\<open>az\<close> only.
\<close>

definition flip_gesture :: "env \<Rightarrow> sensor \<Rightarrow> sensor" where
  "flip_gesture e s0 =
    (let (az, s) = getRawAccelZ s0;
         g_az = float_of_int16 az
     in if g_az < - (3 / 4)
        then (let s = emit (Log INFO ''Flip front to confirm start calibration'' []) s;
                  s = emit (Delay 5000) s;
                  (az, s) = getRawAccelZ s
              in if g_az > 3 / 4
                 then (let s = emit (Log DEBUG ''Starting calibration...'' []) s
                       in startCalibration e 0 s)
                 else s)
        else s)"

text \<open>The block that loads the stored calibration.\<close>

definition load_calibration :: "sensor \<Rightarrow> sensor" where
  "load_calibration s =
    (let sensorCalibration = configuration s (sensorId s)
     in case type sensorCalibration of
          LSM6DS3 \<Rightarrow> s\<lparr>m_Calibration := data_lsm6ds3 sensorCalibration\<rparr>
        | NONE \<Rightarrow>
            (let s = emit (Log WARN ''No calibration data found for sensor %d, ignoring...''
                             [ArgI (uint (sensorId s))]) s
             in emit (Log INFO ''Calibration is advised'' []) s)
        | OTHER n \<Rightarrow>
            (let s = emit (Log WARN ''Incompatible calibration data found for sensor %d, ignoring...''
                             [ArgI (uint (sensorId s))]) s
             in emit (Log INFO ''Calibration is advised'' []) s))"

definition motionSetup :: "env \<Rightarrow> sensor \<Rightarrow> sensor" where
  "motionSetup e s0 =
    (let s = s0\<lparr>imu := imu_initialize e (addr s0) (imu s0)\<rparr>;
         s = (if FORCE_CALIBRATION then startCalibration e 0 s else s)
     in if \<not> testConnection (imu s)
        then emit (Log FATAL ''Can't connect to LSM6DS3 (0x%02x) at address 0x%02x''
                     [ArgI (uint (getDeviceID (imu s))), ArgI (uint (addr s))]) s
        else
         (let s = emit (Log INFO ''Connected to LSM6DS3 (0x%02x) at address 0x%02x''
                          [ArgI (uint (getDeviceID (imu s))), ArgI (uint (addr s))]) s;
              s = flip_gesture e s;
              s = load_calibration s
          in s\<lparr>working := True\<rparr>))"

subsection \<open>\<^verbatim>\<open>motionLoop\<close>\<close>

text \<open>
  One call of \<^verbatim>\<open>motionLoop\<close>, in three parts; \<open>t\<close> is what \<^verbatim>\<open>micros()\<close> returns in
  it. \<open>fusion_step\<close> is the function from its first line to the call of the fusion filter:
  the inspection read, the time step, the scaled sample and the filter's update of \<^verbatim>\<open>q\<close>.
\<close>

definition fusion_step :: "env \<Rightarrow> 32 word \<Rightarrow> sensor \<Rightarrow> sensor" where
  "fusion_step e t s0 =
    (let s = (if ENABLE_INSPECTION e
              then (let (r, s) = getMotion6 s0 in emit (SendInspectionRawIMUData (sensorId s) r) s)
              else s0);
         s = s\<lparr>now := t\<rparr>;
         s = s\<lparr>deltat := rnd e (real (unat (now s - last_t s)))\<rparr>;
         s = s\<lparr>last_t := now s\<rparr>;
         (AGxyz, s) = getScaledValues e s;
         dt = fmul e (deltat s) (rnd e (1 / 1000000))
     in if MADGWICK
        then s\<lparr>q := madgwickQuaternionUpdate e (q s) (AGxyz 0) (AGxyz 1) (AGxyz 2)
                      (AGxyz 3) (AGxyz 4) (AGxyz 5) dt\<rparr>
        else s\<lparr>q := mahonyQuaternionUpdate e (q s) (AGxyz 0) (AGxyz 1) (AGxyz 2)
                      (AGxyz 3) (AGxyz 4) (AGxyz 5) dt\<rparr>)"

text \<open>
  \<open>orientation_update\<close> continues to the line before the last statement: the remap of
  \<^verbatim>\<open>q\<close> into \<^verbatim>\<open>quaternion\<close>, the mounting offset, the temperature and the inspection
  packet.
\<close>

definition orientation_update :: "env \<Rightarrow> 32 word \<Rightarrow> sensor \<Rightarrow> sensor" where
  "orientation_update e t s0 =
    (let s = fusion_step e t s0;
         s = s\<lparr>quaternion := \<lparr>qx = - q s 2, qy = q s 1, qz = q s 3, qw = q s 0\<rparr>\<rparr>;
         s = s\<lparr>quaternion := quat_mul e (quaternion s) (sensorOffset s)\<rparr>;
         s = emit (SendTemperature (getTemperature (imu s)) (sensorId s)) s
     in if ENABLE_INSPECTION e
        then emit (SendInspectionFusedIMUData (sensorId s) (quaternion s)) s
        else s)"

text \<open>
  The condition of the last statement:
  \<^verbatim>\<open>!OPTIMIZE_UPDATES || !lastQuatSent.equalsWithEpsilon(quaternion)\<close>.
\<close>

definition change_detected :: "env \<Rightarrow> sensor \<Rightarrow> bool" where
  "change_detected e s \<longleftrightarrow>
     \<not> OPTIMIZE_UPDATES e \<or> \<not> equalsWithEpsilon e (lastQuatSent s) (quaternion s)"

definition motionLoop :: "env \<Rightarrow> 32 word \<Rightarrow> sensor \<Rightarrow> sensor" where
  "motionLoop e t s0 =
    (let s = orientation_update e t s0
     in if change_detected e s
        then s\<lparr>newData := True, lastQuatSent := quaternion s\<rparr>
        else s)"

text \<open>The caller's loop: one call of \<^verbatim>\<open>motionLoop\<close> for each time stamp of the list.\<close>

fun run_ticks :: "env \<Rightarrow> 32 word list \<Rightarrow> sensor \<Rightarrow> sensor" where
  "run_ticks e [] s = s"
| "run_ticks e (t # ts) s = run_ticks e ts (motionLoop e t s)"

text \<open>
  The quaternion of the most recent call in which the last statement took its branch,
  and \<open>d\<close> when no call did.
\<close>

fun last_marked :: "env \<Rightarrow> 32 word list \<Rightarrow> sensor \<Rightarrow> quat \<Rightarrow> quat" where
  "last_marked e [] s d = d"
| "last_marked e (t # ts) s d =
     last_marked e ts (motionLoop e t s)
       (if change_detected e (orientation_update e t s)
        then quaternion (orientation_update e t s) else d)"

subsection \<open>A concrete build and device\<close>

text \<open>
  A build with exact arithmetic, throttling enabled and inspection disabled, a filter that
  leaves \<^verbatim>\<open>q\<close> as it is, the Hamilton product as quaternion product and a component-wise
  comparison of quaternions; and a sensor lying face up and at rest.
\<close>

definition hamilton :: "quat \<Rightarrow> quat \<Rightarrow> quat" where
  "hamilton a b =
     \<lparr>qx = qw a * qx b + qx a * qw b + qy a * qz b - qz a * qy b,
      qy = qw a * qy b + qy a * qw b + qz a * qx b - qx a * qz b,
      qz = qw a * qz b + qz a * qw b + qx a * qy b - qy a * qx b,
      qw = qw a * qw b - qx a * qx b - qy a * qy b - qz a * qz b\<rparr>"

definition close_quat :: "quat \<Rightarrow> quat \<Rightarrow> bool" where
  "close_quat a b \<longleftrightarrow>
     \<bar>qx a - qx b\<bar> < 1 / 10000 \<and> \<bar>qy a - qy b\<bar> < 1 / 10000 \<and>
     \<bar>qz a - qz b\<bar> < 1 / 10000 \<and> \<bar>qw a - qw b\<bar> < 1 / 10000"

definition example_env :: env where
  "example_env =
     \<lparr>rnd = (\<lambda>x. x), rnd_double = (\<lambda>x. x),
      OPTIMIZE_UPDATES = True, ENABLE_INSPECTION = False, DEBUG_SENSOR = False,
      mahonyQuaternionUpdate = (\<lambda>q0 a1 a2 a3 g1 g2 g3 dt. q0),
      madgwickQuaternionUpdate = (\<lambda>q0 a1 a2 a3 g1 g2 g3 dt. q0),
      quat_mul = hamilton, equalsWithEpsilon = close_quat,
      CalculateCalibration = (\<lambda>buf n i j. if j + 1 = i then 1 else 0),
      imu_initialize = (\<lambda>a d. d), malloc_contents = (\<lambda>_. 0)\<rparr>"

definition face_up :: raw6 where
  "face_up = \<lparr>r_ax = 0, r_ay = 0, r_az = 16384, r_gx = 3, r_gy = - 2, r_gz = 1\<rparr>"

definition face_down :: raw6 where
  "face_down = \<lparr>r_ax = 0, r_ay = 0, r_az = - 16384, r_gx = 3, r_gy = - 2, r_gz = 1\<rparr>"

definition zero_calibration :: LSM6DS3CalibrationConfig where
  "zero_calibration = \<lparr>G_off = (\<lambda>_. 0), A_B = (\<lambda>_. 0), A_Ainv = (\<lambda>_ _. 0)\<rparr>"

definition example_imu :: imu_dev where
  "example_imu =
     \<lparr>samples = (\<lambda>_. face_up), reads = 0, testConnection = True, getDeviceID = 0x69,
      getTemperature = 25, gscale = 1 / 1000, accelRange = 16\<rparr>"

definition example_sensor :: sensor where
  "example_sensor =
     \<lparr>addr = 0x6A, sensorId = 0, imu = example_imu, m_Calibration = zero_calibration,
      q = (\<lambda>_. 1 / 2),
      quaternion = \<lparr>qx = 0, qy = 0, qz = 0, qw = 1\<rparr>,
      sensorOffset = \<lparr>qx = 0, qy = 0, qz = 1, qw = 0\<rparr>,
      lastQuatSent = \<lparr>qx = 0, qy = 0, qz = 0, qw = 1\<rparr>,
      newData = False, working = False, now = 0, last_t = 0, deltat = 0,
      configuration = (\<lambda>_. \<lparr>type = NONE, data_lsm6ds3 = zero_calibration\<rparr>),
      trace = []\<rparr>"

text \<open>The same sensor lying face down at the first read and face up from the second on.\<close>

definition flipped_sensor :: sensor where
  "flipped_sensor =
     example_sensor\<lparr>imu := example_imu\<lparr>samples := (\<lambda>n. if n = 0 then face_down else face_up)\<rparr>\<rparr>"

section \<open>Properties\<close>

subsection \<open>What each step changes\<close>

lemma emit_simps:
  "trace (emit ev s) = trace s @ [ev]"
  "imu (emit ev s) = imu s"
  "m_Calibration (emit ev s) = m_Calibration s"
  "q (emit ev s) = q s"
  "quaternion (emit ev s) = quaternion s"
  "sensorOffset (emit ev s) = sensorOffset s"
  "lastQuatSent (emit ev s) = lastQuatSent s"
  "newData (emit ev s) = newData s"
  "working (emit ev s) = working s"
  "sensorId (emit ev s) = sensorId s"
  "addr (emit ev s) = addr s"
  "configuration (emit ev s) = configuration s"
  "now (emit ev s) = now s"
  "last_t (emit ev s) = last_t s"
  "deltat (emit ev s) = deltat s"
  by (simp_all add: emit_def)

lemma getMotion6_simps:
  "fst (getMotion6 s) = samples (imu s) (reads (imu s))"
  "snd (getMotion6 s) = s\<lparr>imu := (imu s)\<lparr>reads := Suc (reads (imu s))\<rparr>\<rparr>"
  by (simp_all add: getMotion6_def)

lemma getRawAccelZ_simps:
  "fst (getRawAccelZ s) = r_az (samples (imu s) (reads (imu s)))"
  "snd (getRawAccelZ s) = s\<lparr>imu := (imu s)\<lparr>reads := Suc (reads (imu s))\<rparr>\<rparr>"
  by (simp_all add: getRawAccelZ_def)

lemma fst_getScaledValues:
  "fst (getScaledValues e s) =
    (let r = samples (imu s) (reads (imu s) + (if ENABLE_INSPECTION e then 1 else 0)) in
     (\<lambda>_. 0)(0 := float_of_int16 (r_ax r), 1 := float_of_int16 (r_ay r), 2 := float_of_int16 (r_az r),
       3 := fmul e (fsub e (float_of_int16 (r_gx r)) (G_off (m_Calibration s) 0)) (gscale (imu s)),
       4 := fmul e (fsub e (float_of_int16 (r_gy r)) (G_off (m_Calibration s) 1)) (gscale (imu s)),
       5 := fmul e (fsub e (float_of_int16 (r_gz r)) (G_off (m_Calibration s) 2)) (gscale (imu s))))"
  by (cases "ENABLE_INSPECTION e")
     (simp_all add: getScaledValues_def getMotion6_def emit_def Let_def split_def DISABLE_ASCALE_def)

lemma snd_getScaledValues:
  "snd (getScaledValues e s) =
     (if ENABLE_INSPECTION e
      then emit (SendInspectionRawIMUData (sensorId s) (samples (imu s) (reads (imu s))))
             (s\<lparr>imu := (imu s)\<lparr>reads := reads (imu s) + 2\<rparr>\<rparr>)
      else s\<lparr>imu := (imu s)\<lparr>reads := reads (imu s) + 1\<rparr>\<rparr>)"
  by (simp add: getScaledValues_def getMotion6_def emit_def Let_def split_def)

lemma getScaledValues_frame:
  "m_Calibration (snd (getScaledValues e s)) = m_Calibration s"
  "q (snd (getScaledValues e s)) = q s"
  "quaternion (snd (getScaledValues e s)) = quaternion s"
  "sensorOffset (snd (getScaledValues e s)) = sensorOffset s"
  "lastQuatSent (snd (getScaledValues e s)) = lastQuatSent s"
  "newData (snd (getScaledValues e s)) = newData s"
  "working (snd (getScaledValues e s)) = working s"
  "sensorId (snd (getScaledValues e s)) = sensorId s"
  "deltat (snd (getScaledValues e s)) = deltat s"
  by (simp_all add: snd_getScaledValues emit_simps)

lemma fusion_step_frame:
  "sensorOffset (fusion_step e t s) = sensorOffset s"
  "lastQuatSent (fusion_step e t s) = lastQuatSent s"
  "newData (fusion_step e t s) = newData s"
  "working (fusion_step e t s) = working s"
  "m_Calibration (fusion_step e t s) = m_Calibration s"
  by (simp_all add: fusion_step_def Let_def split_def MADGWICK_def getScaledValues_frame
        getMotion6_simps emit_simps)

lemma q_fusion_step:
  "q (fusion_step e t s) =
    (let AGxyz = fst (getScaledValues e (if ENABLE_INSPECTION e then snd (getMotion6 s) else s));
         dt = fmul e (rnd e (real (unat (t - last_t s)))) (rnd e (1 / 1000000))
     in mahonyQuaternionUpdate e (q s) (AGxyz 0) (AGxyz 1) (AGxyz 2) (AGxyz 3) (AGxyz 4) (AGxyz 5) dt)"
  by (cases "ENABLE_INSPECTION e")
     (simp_all add: fusion_step_def Let_def split_def MADGWICK_def getScaledValues_frame
        fst_getScaledValues getMotion6_simps emit_simps)

lemma orientation_update_fields:
  "q (orientation_update e t s) = q (fusion_step e t s)"
  "quaternion (orientation_update e t s) =
     quat_mul e \<lparr>qx = - q (fusion_step e t s) 2, qy = q (fusion_step e t s) 1,
                 qz = q (fusion_step e t s) 3, qw = q (fusion_step e t s) 0\<rparr> (sensorOffset s)"
  "sensorOffset (orientation_update e t s) = sensorOffset s"
  "lastQuatSent (orientation_update e t s) = lastQuatSent s"
  "newData (orientation_update e t s) = newData s"
  "working (orientation_update e t s) = working s"
  "m_Calibration (orientation_update e t s) = m_Calibration s"
  by (simp_all add: orientation_update_def Let_def fusion_step_frame emit_simps)

lemma motionLoop_fields:
  "q (motionLoop e t s) = q (fusion_step e t s)"
  "quaternion (motionLoop e t s) = quaternion (orientation_update e t s)"
  "sensorOffset (motionLoop e t s) = sensorOffset s"
  by (simp_all add: motionLoop_def Let_def orientation_update_fields)

lemma motionLoop_marked:
  "change_detected e (orientation_update e t s) \<Longrightarrow>
     newData (motionLoop e t s) \<and> lastQuatSent (motionLoop e t s) = quaternion (motionLoop e t s)"
  by (simp add: motionLoop_def Let_def)

lemma motionLoop_unmarked:
  "\<not> change_detected e (orientation_update e t s) \<Longrightarrow>
     newData (motionLoop e t s) = newData s \<and> lastQuatSent (motionLoop e t s) = lastQuatSent s"
  by (simp add: motionLoop_def Let_def orientation_update_fields)

lemma orientation_update_newData:
  "quaternion (orientation_update e t (s\<lparr>newData := b\<rparr>)) = quaternion (orientation_update e t s)"
  "lastQuatSent (orientation_update e t (s\<lparr>newData := b\<rparr>)) = lastQuatSent s"
  by (cases "ENABLE_INSPECTION e";
      simp add: orientation_update_fields q_fusion_step getMotion6_simps fst_getScaledValues Let_def)+

lemma change_detected_newData:
  "change_detected e (orientation_update e t (s\<lparr>newData := b\<rparr>)) =
   change_detected e (orientation_update e t s)"
  by (simp add: change_detected_def orientation_update_newData orientation_update_fields(4))

lemma lastQuatSent_run_ticks:
  "lastQuatSent (run_ticks e ts s) = last_marked e ts s (lastQuatSent s)"
proof (induction ts arbitrary: s)
  case Nil
  show ?case by simp
next
  case (Cons t ts)
  show ?case
  proof (cases "change_detected e (orientation_update e t s)")
    case True
    then show ?thesis
      using motionLoop_marked[OF True] by (simp add: Cons.IH motionLoop_fields)
  next
    case False
    then show ?thesis
      using motionLoop_unmarked[OF False] by (simp add: Cons.IH)
  qed
qed

text \<open>The example filter leaves \<^verbatim>\<open>q\<close> alone, so every call computes the same quaternion.\<close>

lemma example_quaternion:
  "sensorOffset s = \<lparr>qx = 0, qy = 0, qz = 1, qw = 0\<rparr> \<Longrightarrow> q s = (\<lambda>_. 1 / 2) \<Longrightarrow>
   quaternion (orientation_update example_env t s) = \<lparr>qx = 1 / 2, qy = 1 / 2, qz = 1 / 2, qw = - 1 / 2\<rparr> \<and>
   q (fusion_step example_env t s) = (\<lambda>_. 1 / 2)"
  by (simp add: orientation_update_fields q_fusion_step example_env_def hamilton_def)

lemma example_tick:
  "sensorOffset s = \<lparr>qx = 0, qy = 0, qz = 1, qw = 0\<rparr> \<Longrightarrow> q s = (\<lambda>_. 1 / 2) \<Longrightarrow>
   quaternion (motionLoop e' t s) = quaternion (orientation_update e' t s) \<and>
   sensorOffset (motionLoop e' t s) = \<lparr>qx = 0, qy = 0, qz = 1, qw = 0\<rparr> \<and>
   q (motionLoop example_env t s) = (\<lambda>_. 1 / 2)"
  using example_quaternion[of s t] by (simp add: motionLoop_fields)

lemma flip_gesture_eq:
  "flip_gesture e s =
     (if float_of_int16 (r_az (samples (imu s) (reads (imu s)))) < - (3 / 4)
      then snd (getRawAccelZ (emit (Delay 5000)
             (emit (Log INFO ''Flip front to confirm start calibration'' []) (snd (getRawAccelZ s)))))
      else snd (getRawAccelZ s))"
  by (simp add: flip_gesture_def split_def Let_def getRawAccelZ_simps(1))

lemma flip_gesture_frame:
  "m_Calibration (flip_gesture e s) = m_Calibration s"
  "configuration (flip_gesture e s) = configuration s"
  "sensorId (flip_gesture e s) = sensorId s"
  "working (flip_gesture e s) = working s"
  by (simp_all add: flip_gesture_eq getRawAccelZ_simps emit_simps)

lemma load_calibration_frame:
  "sensorId (load_calibration s) = sensorId s"
  "configuration (load_calibration s) = configuration s"
  "imu (load_calibration s) = imu s"
  "working (load_calibration s) = working s"
  by (simp_all add: load_calibration_def Let_def emit_simps split: CalibrationConfigType.splits)

lemma load_calibration_absent:
  "type (configuration s (sensorId s)) \<noteq> LSM6DS3 \<Longrightarrow>
   m_Calibration (load_calibration s) = m_Calibration s \<and>
   trace (load_calibration s) = trace s @
     [Log WARN (if type (configuration s (sensorId s)) = NONE
                then ''No calibration data found for sensor %d, ignoring...''
                else ''Incompatible calibration data found for sensor %d, ignoring...'')
        [ArgI (uint (sensorId s))],
      Log INFO ''Calibration is advised'' []]"
  by (simp add: load_calibration_def Let_def emit_simps split: CalibrationConfigType.splits)

lemma motionSetup_connected:
  "testConnection (imu_initialize e (addr s) (imu s)) \<Longrightarrow>
   motionSetup e s =
     (load_calibration (flip_gesture e
        (emit (Log INFO ''Connected to LSM6DS3 (0x%02x) at address 0x%02x''
                 [ArgI (uint (getDeviceID (imu_initialize e (addr s) (imu s)))), ArgI (uint (addr s))])
           (s\<lparr>imu := imu_initialize e (addr s) (imu s)\<rparr>))))\<lparr>working := True\<rparr>"
  by (simp add: motionSetup_def Let_def FORCE_CALIBRATION_def emit_simps)

subsection \<open>The loops of the calibration\<close>

lemma gyro_loop_closed:
  "gyro_loop e i G s =
    (G(0 := foldl (fadd e) (G 0) (map (\<lambda>n. float_of_int16 (r_gx (samples (imu s) n)))
                [reads (imu s)..<reads (imu s) + (calibrationSamples - i)]),
       1 := foldl (fadd e) (G 1) (map (\<lambda>n. float_of_int16 (r_gy (samples (imu s) n)))
                [reads (imu s)..<reads (imu s) + (calibrationSamples - i)]),
       2 := foldl (fadd e) (G 2) (map (\<lambda>n. float_of_int16 (r_gz (samples (imu s) n)))
                [reads (imu s)..<reads (imu s) + (calibrationSamples - i)])),
     s\<lparr>imu := (imu s)\<lparr>reads := reads (imu s) + (calibrationSamples - i)\<rparr>\<rparr>)"
proof (induction e i G s rule: gyro_loop.induct)
  case (1 e i G s)
  show ?case
  proof (cases "i < calibrationSamples")
    case True
    then have len: "calibrationSamples - i = Suc (calibrationSamples - (i + 1))"
      by simp
    have upt: "[reads (imu s)..<reads (imu s) + (calibrationSamples - i)] =
        reads (imu s) # [Suc (reads (imu s))..<Suc (reads (imu s)) + (calibrationSamples - (i + 1))]"
      by (simp add: len upt_conv_Cons del: upt_Suc)
    have pair: "(samples (imu s) (reads (imu s)), s\<lparr>imu := (imu s)\<lparr>reads := Suc (reads (imu s))\<rparr>\<rparr>) = getMotion6 s"
      by (simp add: getMotion6_def)
    note IH = "1.IH"[OF True refl pair refl refl refl]
    show ?thesis
      apply (subst gyro_loop.simps)
      apply (simp only: True if_True getMotion6_def Let_def split_conv)
      apply (subst IH)
      apply (simp only: upt)
      apply (simp add: len)
      done
  next
    case False
    then show ?thesis
      by (subst gyro_loop.simps) simp
  qed
qed


lemma accel_loop_frame:
  "m_Calibration (snd (accel_loop e i buf s)) = m_Calibration s \<and>
   sensorId (snd (accel_loop e i buf s)) = sensorId s \<and>
   configuration (snd (accel_loop e i buf s)) = configuration s \<and>
   filter is_external_gyro (trace (snd (accel_loop e i buf s))) = filter is_external_gyro (trace s)"
proof (induction e i buf s rule: accel_loop.induct)
  case (1 e i buf s)
  show ?case
  proof (cases "i < calibrationSamples")
    case True
    have pair: "(samples (imu s) (reads (imu s)), s\<lparr>imu := (imu s)\<lparr>reads := Suc (reads (imu s))\<rparr>\<rparr>) = getMotion6 s"
      by (simp add: getMotion6_def)
    note IH = "1.IH"[OF True refl pair refl refl refl refl refl refl]
    show ?thesis
      apply (subst (1 2 3 4) accel_loop.simps)
      apply (simp only: True if_True getMotion6_def Let_def split_conv)
      apply (simp only: IH)
      apply (simp add: emit_simps)
      done
  next
    case False
    then show ?thesis
      by (subst (1 2 3 4) accel_loop.simps) simp
  qed
qed

lemma copy_loop_frame:
  "G_off (m_Calibration (copy_loop i M s)) = G_off (m_Calibration s) \<and>
   sensorId (copy_loop i M s) = sensorId s \<and>
   filter is_external_gyro (trace (copy_loop i M s)) = filter is_external_gyro (trace s)"
proof (induction i M s rule: copy_loop.induct)
  case (1 i M s)
  show ?case
  proof (cases "i < 3")
    case True
    note IH = "1.IH"[OF True refl refl refl refl refl refl refl]
    show ?thesis
      apply (subst (1 2 3) copy_loop.simps)
      apply (simp only: True if_True Let_def)
      apply (simp only: IH)
      apply (simp add: emit_simps)
      done
  next
    case False
    then show ?thesis
      by (subst (1 2 3) copy_loop.simps) simp
  qed
qed

lemma gyro_loop_start:
  "gyro_loop e 0 (\<lambda>_. 0) s =
     ((\<lambda>_. 0)(0 := gyro_sum e r_gx s, 1 := gyro_sum e r_gy s, 2 := gyro_sum e r_gz s),
      s\<lparr>imu := (imu s)\<lparr>reads := reads (imu s) + 300\<rparr>\<rparr>)"
  by (simp add: gyro_loop_closed gyro_sum_def calibrationSamples_def)

lemma gyro_sum_emit:
  "gyro_sum e axis (emit ev s) = gyro_sum e axis s"
  by (simp add: gyro_sum_def emit_simps)

lemma gyro_loop_emit:
  "gyro_loop e i G (emit ev s) = (fst (gyro_loop e i G s), emit ev (snd (gyro_loop e i G s)))"
  by (simp add: gyro_loop_closed emit_def)

lemma startCalibration_gyro:
  "G_off (m_Calibration (startCalibration e ct s)) =
     (G_off (m_Calibration s))(0 := gyro_mean e r_gx s, 1 := gyro_mean e r_gy s, 2 := gyro_mean e r_gz s)"
  by (simp add: startCalibration_def Let_def split_def gyro_loop_emit gyro_loop_start gyro_sum_emit emit_simps
        accel_loop_frame copy_loop_frame gyro_mean_def calibrationSamples_def)


lemma startCalibration_gyro_telemetry:
  "filter is_external_gyro (trace (startCalibration e ct s)) =
     filter is_external_gyro (trace s) @
       [SendRawCalibrationData (gyro_mean e r_gx s) (gyro_mean e r_gy s) (gyro_mean e r_gz s)
          CALIBRATION_TYPE_EXTERNAL_GYRO 0]"
  by (cases "DEBUG_SENSOR e")
     (simp_all add: startCalibration_def Let_def split_def gyro_loop_emit gyro_loop_start gyro_sum_emit
        emit_simps accel_loop_frame copy_loop_frame gyro_mean_def calibrationSamples_def)

lemma gyro_loop_silent:
  "trace (snd (gyro_loop e i G s)) = trace s"
  by (simp add: gyro_loop_closed)

lemma foldl_fadd_exact:
  assumes exact: "\<forall>k::int. \<bar>k\<bar> \<le> 2 ^ 24 \<longrightarrow> rnd e (real_of_int k) = real_of_int k"
  shows "\<bar>a\<bar> + 32768 * int (length ws) \<le> 2 ^ 24 \<Longrightarrow>
         foldl (fadd e) (real_of_int a) (map float_of_int16 ws) = real_of_int (a + sum_list (map sint ws))"
proof (induction ws arbitrary: a)
  case Nil
  show ?case by simp
next
  case (Cons w ws)
  have lo: "- 32768 \<le> sint w" using sint_ge[of w] by simp
  have hi: "sint w < 32768" using sint_lt[of w] by simp
  from lo hi Cons.prems have small: "\<bar>a + sint w\<bar> \<le> 2 ^ 24" and
    rest: "\<bar>a + sint w\<bar> + 32768 * int (length ws) \<le> 2 ^ 24"
    by simp_all
  have "fadd e (real_of_int a) (float_of_int16 w) = rnd e (real_of_int (a + sint w))"
    unfolding fadd_def float_of_int16_def by (simp only: of_int_add)
  also have "\<dots> = real_of_int (a + sint w)"
    using exact small by blast
  finally have step: "fadd e (real_of_int a) (float_of_int16 w) = real_of_int (a + sint w)" .
  show ?case
    using Cons.IH[OF rest] by (simp add: step add.assoc)
qed

lemma gyro_mean_exact:
  assumes exact: "\<forall>k::int. \<bar>k\<bar> \<le> 2 ^ 24 \<longrightarrow> rnd e (real_of_int k) = real_of_int k"
  shows "gyro_mean e axis s =
     rnd e (real_of_int (\<Sum>n = reads (imu s)..<reads (imu s) + 300. sint (axis (samples (imu s) n))) / 300)"
proof -
  let ?ws = "map (\<lambda>n. axis (samples (imu s) n)) [reads (imu s)..<reads (imu s) + 300]"
  have "foldl (fadd e) (real_of_int 0) (map float_of_int16 ?ws) = real_of_int (0 + sum_list (map sint ?ws))"
    by (rule foldl_fadd_exact[OF exact]) simp
  moreover have "sum_list (map sint ?ws) = (\<Sum>n = reads (imu s)..<reads (imu s) + 300. sint (axis (samples (imu s) n)))"
    by (simp add: comp_def interv_sum_list_conv_sum_set_nat)
  ultimately show ?thesis
    by (simp add: gyro_mean_def gyro_sum_def fdiv_def comp_def)
qed

subsection \<open>The sample scaler\<close>

text \<open>
  C2. Whatever the raw sample and the stored gyro offset, each gyroscope output of
  \<^verbatim>\<open>getScaledValues\<close> is the raw value minus \<^verbatim>\<open>G_off\<close> of its axis, times \<^verbatim>\<open>imu.gscale\<close>,
  in float arithmetic. The sample is the one the call reads: the next one, or the one after
  it when the inspection block has read first. Replacing the accelerometer values of the
  device by any others leaves the three gyroscope outputs as they are.
\<close>

theorem scaled_gyro:
  "fst (getScaledValues e s) 3 =
     fmul e (fsub e (float_of_int16 (r_gx (samples (imu s) (reads (imu s) + (if ENABLE_INSPECTION e then 1 else 0)))))
                    (G_off (m_Calibration s) 0)) (gscale (imu s)) \<and>
   fst (getScaledValues e s) 4 =
     fmul e (fsub e (float_of_int16 (r_gy (samples (imu s) (reads (imu s) + (if ENABLE_INSPECTION e then 1 else 0)))))
                    (G_off (m_Calibration s) 1)) (gscale (imu s)) \<and>
   fst (getScaledValues e s) 5 =
     fmul e (fsub e (float_of_int16 (r_gz (samples (imu s) (reads (imu s) + (if ENABLE_INSPECTION e then 1 else 0)))))
                    (G_off (m_Calibration s) 2)) (gscale (imu s)) \<and>
   fst (getScaledValues e (s\<lparr>imu := (imu s)\<lparr>samples :=
          \<lambda>n. (samples (imu s) n)\<lparr>r_ax := a1 n, r_ay := a2 n, r_az := a3 n\<rparr>\<rparr>\<rparr>)) 3 = fst (getScaledValues e s) 3 \<and>
   fst (getScaledValues e (s\<lparr>imu := (imu s)\<lparr>samples :=
          \<lambda>n. (samples (imu s) n)\<lparr>r_ax := a1 n, r_ay := a2 n, r_az := a3 n\<rparr>\<rparr>\<rparr>)) 4 = fst (getScaledValues e s) 4 \<and>
   fst (getScaledValues e (s\<lparr>imu := (imu s)\<lparr>samples :=
          \<lambda>n. (samples (imu s) n)\<lparr>r_ax := a1 n, r_ay := a2 n, r_az := a3 n\<rparr>\<rparr>\<rparr>)) 5 = fst (getScaledValues e s) 5"
  by (simp add: fst_getScaledValues Let_def)

theorem scaled_gyro_witness:
  "fst (getScaledValues example_env (example_sensor\<lparr>m_Calibration := zero_calibration\<lparr>G_off := (\<lambda>_. 1)\<rparr>\<rparr>)) 3 = 2 / 1000 \<and>
   fst (getScaledValues example_env (example_sensor\<lparr>m_Calibration := zero_calibration\<lparr>G_off := (\<lambda>_. 1)\<rparr>\<rparr>)) 4 = - 3 / 1000 \<and>
   fst (getScaledValues example_env (example_sensor\<lparr>m_Calibration := zero_calibration\<lparr>G_off := (\<lambda>_. 1)\<rparr>\<rparr>)) 5 = 0"
  using scaled_gyro[of example_env "example_sensor\<lparr>m_Calibration := zero_calibration\<lparr>G_off := (\<lambda>_. 1)\<rparr>\<rparr>"]
  by (simp add: example_env_def example_sensor_def example_imu_def face_up_def zero_calibration_def
        fmul_def fsub_def float_of_int16_def)

text \<open>
  C6. \<^verbatim>\<open>DISABLE_ASCALE\<close> is defined true, so the three accelerometer outputs of
  \<^verbatim>\<open>getScaledValues\<close> are the raw counts converted to float; and the whole output is the
  same for two calibration records that differ only in \<^verbatim>\<open>A_B\<close> and \<^verbatim>\<open>A_Ainv\<close>: the
  ellipsoid correction is not applied in the scaling.
\<close>

theorem accel_bypass:
  "fst (getScaledValues e s) 0 =
     float_of_int16 (r_ax (samples (imu s) (reads (imu s) + (if ENABLE_INSPECTION e then 1 else 0)))) \<and>
   fst (getScaledValues e s) 1 =
     float_of_int16 (r_ay (samples (imu s) (reads (imu s) + (if ENABLE_INSPECTION e then 1 else 0)))) \<and>
   fst (getScaledValues e s) 2 =
     float_of_int16 (r_az (samples (imu s) (reads (imu s) + (if ENABLE_INSPECTION e then 1 else 0)))) \<and>
   fst (getScaledValues e (s\<lparr>m_Calibration := (m_Calibration s)\<lparr>A_B := b, A_Ainv := m\<rparr>\<rparr>)) =
     fst (getScaledValues e s)"
  by (simp add: fst_getScaledValues Let_def)

theorem accel_bypass_witness:
  "fst (getScaledValues example_env example_sensor) 0 = 0 \<and>
   fst (getScaledValues example_env example_sensor) 2 = 16384 \<and>
   fst (getScaledValues example_env
     (example_sensor\<lparr>m_Calibration := (m_Calibration example_sensor)\<lparr>A_B := (\<lambda>_. 5), A_Ainv := (\<lambda>_ _. 7)\<rparr>\<rparr>)) 2 = 16384"
  using accel_bypass[where e = example_env and s = example_sensor and b = "\<lambda>_. 5" and m = "\<lambda>_ _. 7"]
  by (simp add: example_env_def example_sensor_def example_imu_def face_up_def float_of_int16_def)

subsection \<open>The orientation loop\<close>

text \<open>
  C1. In every call of \<^verbatim>\<open>motionLoop\<close>, whatever quaternion \<^verbatim>\<open>q\<close> the fusion filter has
  produced, the quaternion before the mounting offset is \<open>(x, y, z, w) = (-q[2], q[1], q[3], q[0])\<close>,
  and the result is that quaternion multiplied by \<^verbatim>\<open>sensorOffset\<close> on the right; the filter's
  \<^verbatim>\<open>q\<close> is kept as the filter left it.
\<close>

theorem remap_then_offset:
  "quaternion (motionLoop e t s) =
     quat_mul e \<lparr>qx = - q (fusion_step e t s) 2, qy = q (fusion_step e t s) 1,
                 qz = q (fusion_step e t s) 3, qw = q (fusion_step e t s) 0\<rparr> (sensorOffset s)
   \<and> q (motionLoop e t s) = q (fusion_step e t s)"
  by (simp add: motionLoop_fields orientation_update_fields)

theorem remap_then_offset_witness:
  "quaternion (motionLoop example_env 1000 example_sensor) =
     hamilton \<lparr>qx = - (1 / 2), qy = 1 / 2, qz = 1 / 2, qw = 1 / 2\<rparr> \<lparr>qx = 0, qy = 0, qz = 1, qw = 0\<rparr>"
  using remap_then_offset[of example_env 1000 example_sensor]
  by (simp add: q_fusion_step example_env_def example_sensor_def)

text \<open>
  C7. With \<^verbatim>\<open>OPTIMIZE_UPDATES\<close> enabled, when a second call of \<^verbatim>\<open>motionLoop\<close> computes
  the same quaternion as the call before it, and \<^verbatim>\<open>equalsWithEpsilon\<close> holds between that
  quaternion and itself, the second call does not take the branch that marks new data:
  whatever value \<open>b\<close> the flag \<^verbatim>\<open>newData\<close> has when the second call starts (the sender may
  have cleared it in between), it has the same value afterwards, and \<^verbatim>\<open>lastQuatSent\<close> stays
  as the first call left it. With \<^verbatim>\<open>OPTIMIZE_UPDATES\<close> disabled every call takes the branch:
  \<^verbatim>\<open>newData\<close> is set afterwards even if it was clear before, and \<^verbatim>\<open>lastQuatSent\<close> is the
  new quaternion.
\<close>

theorem throttle_second_tick:
  "(OPTIMIZE_UPDATES e \<longrightarrow>
      quaternion (motionLoop e t2 (motionLoop e t1 s)) = quaternion (motionLoop e t1 s) \<longrightarrow>
      equalsWithEpsilon e (quaternion (motionLoop e t1 s)) (quaternion (motionLoop e t1 s)) \<longrightarrow>
        \<not> change_detected e (orientation_update e t2 (motionLoop e t1 s)) \<and>
        newData (motionLoop e t2 ((motionLoop e t1 s)\<lparr>newData := b\<rparr>)) = b \<and>
        lastQuatSent (motionLoop e t2 ((motionLoop e t1 s)\<lparr>newData := b\<rparr>)) =
          lastQuatSent (motionLoop e t1 s) \<and>
        newData (motionLoop e t2 (motionLoop e t1 s)) = newData (motionLoop e t1 s) \<and>
        lastQuatSent (motionLoop e t2 (motionLoop e t1 s)) = lastQuatSent (motionLoop e t1 s)) \<and>
   (\<not> OPTIMIZE_UPDATES e \<longrightarrow>
      change_detected e (orientation_update e t s) \<and>
      newData (motionLoop e t (s\<lparr>newData := b\<rparr>)) \<and>
      newData (motionLoop e t s) \<and>
      lastQuatSent (motionLoop e t s) = quaternion (motionLoop e t s))"
proof (intro conjI impI)
  assume opt: "OPTIMIZE_UPDATES e"
    and same: "quaternion (motionLoop e t2 (motionLoop e t1 s)) = quaternion (motionLoop e t1 s)"
    and refl: "equalsWithEpsilon e (quaternion (motionLoop e t1 s)) (quaternion (motionLoop e t1 s))"
  show quiet: "\<not> change_detected e (orientation_update e t2 (motionLoop e t1 s))"
  proof (cases "change_detected e (orientation_update e t1 s)")
    case True
    from motionLoop_marked[OF True] opt same refl show ?thesis
      by (simp add: change_detected_def motionLoop_fields orientation_update_fields)
  next
    case False
    from motionLoop_unmarked[OF False] False opt same show ?thesis
      by (simp add: change_detected_def motionLoop_fields orientation_update_fields)
  qed
  from motionLoop_unmarked[OF quiet]
  show "newData (motionLoop e t2 (motionLoop e t1 s)) = newData (motionLoop e t1 s)"
    and "lastQuatSent (motionLoop e t2 (motionLoop e t1 s)) = lastQuatSent (motionLoop e t1 s)"
    by simp_all
  from quiet have quiet_b:
    "\<not> change_detected e (orientation_update e t2 ((motionLoop e t1 s)\<lparr>newData := b\<rparr>))"
    by (simp add: change_detected_newData)
  from motionLoop_unmarked[OF quiet_b]
  show "newData (motionLoop e t2 ((motionLoop e t1 s)\<lparr>newData := b\<rparr>)) = b"
    and "lastQuatSent (motionLoop e t2 ((motionLoop e t1 s)\<lparr>newData := b\<rparr>)) =
          lastQuatSent (motionLoop e t1 s)"
    by simp_all
next
  assume off: "\<not> OPTIMIZE_UPDATES e"
  then show det: "change_detected e (orientation_update e t s)"
    by (simp add: change_detected_def)
  from motionLoop_marked[OF det] show "newData (motionLoop e t s)"
    and "lastQuatSent (motionLoop e t s) = quaternion (motionLoop e t s)"
    by simp_all
  from off have "change_detected e (orientation_update e t (s\<lparr>newData := b\<rparr>))"
    by (simp add: change_detected_def)
  from motionLoop_marked[OF this] show "newData (motionLoop e t (s\<lparr>newData := b\<rparr>))"
    by simp
qed

theorem throttle_second_tick_witness:
  "newData (motionLoop example_env 1000 example_sensor) \<and>
   \<not> newData (motionLoop example_env 2000
        ((motionLoop example_env 1000 example_sensor)\<lparr>newData := False\<rparr>)) \<and>
   lastQuatSent (motionLoop example_env 2000
        ((motionLoop example_env 1000 example_sensor)\<lparr>newData := False\<rparr>)) =
     \<lparr>qx = 1 / 2, qy = 1 / 2, qz = 1 / 2, qw = - 1 / 2\<rparr> \<and>
   \<not> newData example_sensor \<and>
   newData (motionLoop (example_env\<lparr>OPTIMIZE_UPDATES := False\<rparr>) 1000 example_sensor) \<and>
   newData (motionLoop (example_env\<lparr>OPTIMIZE_UPDATES := False\<rparr>) 2000
      ((motionLoop (example_env\<lparr>OPTIMIZE_UPDATES := False\<rparr>) 1000 example_sensor)\<lparr>newData := False\<rparr>))"
proof -
  have s0: "sensorOffset example_sensor = \<lparr>qx = 0, qy = 0, qz = 1, qw = 0\<rparr>" "q example_sensor = (\<lambda>_. 1 / 2)"
    by (simp_all add: example_sensor_def)
  note t1 = example_tick[OF s0, of example_env 1000]
  have t2: "quaternion (motionLoop example_env 2000 (motionLoop example_env 1000 example_sensor)) =
      quaternion (motionLoop example_env 1000 example_sensor)"
    using example_tick[of "motionLoop example_env 1000 example_sensor" example_env 2000] t1
      example_quaternion[OF s0, of 1000]
      example_quaternion[of "motionLoop example_env 1000 example_sensor" 2000]
    by simp
  have r: "equalsWithEpsilon example_env (quaternion (motionLoop example_env 1000 example_sensor))
      (quaternion (motionLoop example_env 1000 example_sensor))"
    by (simp add: example_env_def close_quat_def)
  have o: "OPTIMIZE_UPDATES example_env" "\<not> OPTIMIZE_UPDATES (example_env\<lparr>OPTIMIZE_UPDATES := False\<rparr>)"
    by (simp_all add: example_env_def)
  have c0: "change_detected example_env (orientation_update example_env 1000 example_sensor)"
    using example_quaternion[OF s0, of 1000]
    by (simp add: change_detected_def orientation_update_fields(4))
       (simp add: example_env_def example_sensor_def close_quat_def)
  have first: "newData (motionLoop example_env 1000 example_sensor)"
    "lastQuatSent (motionLoop example_env 1000 example_sensor) =
       \<lparr>qx = 1 / 2, qy = 1 / 2, qz = 1 / 2, qw = - 1 / 2\<rparr>"
    using motionLoop_marked[OF c0] example_quaternion[OF s0, of 1000]
    by (simp_all add: motionLoop_fields)
  have n0: "\<not> newData example_sensor"
    by (simp add: example_sensor_def)
  show ?thesis
    using throttle_second_tick[where e = example_env and ?t2.0 = 2000 and ?t1.0 = 1000
        and s = example_sensor and b = False] t2 r o(1)
      throttle_second_tick[where e = "example_env\<lparr>OPTIMIZE_UPDATES := False\<rparr>" and t = 1000
        and s = example_sensor and b = False]
      throttle_second_tick[where e = "example_env\<lparr>OPTIMIZE_UPDATES := False\<rparr>" and t = 2000
        and s = "motionLoop (example_env\<lparr>OPTIMIZE_UPDATES := False\<rparr>) 1000 example_sensor"
        and b = False]
      o(2) first n0
    by simp
qed

text \<open>
  C10. A call of \<^verbatim>\<open>motionLoop\<close> that takes the branch of its last statement sets
  \<^verbatim>\<open>newData\<close> and stores the new quaternion in \<^verbatim>\<open>lastQuatSent\<close>; a call that does not
  take it leaves both \<^verbatim>\<open>newData\<close> and \<^verbatim>\<open>lastQuatSent\<close> as they were. So after any
  number of calls \<^verbatim>\<open>lastQuatSent\<close> is the quaternion of the most recent call that marked
  new data, or its initial value when no call did.
\<close>

theorem lastQuatSent_follows_newData:
  "(change_detected e (orientation_update e t s) \<longrightarrow>
      newData (motionLoop e t s) \<and> lastQuatSent (motionLoop e t s) = quaternion (motionLoop e t s)) \<and>
   (\<not> change_detected e (orientation_update e t s) \<longrightarrow>
      newData (motionLoop e t s) = newData s \<and> lastQuatSent (motionLoop e t s) = lastQuatSent s) \<and>
   lastQuatSent (run_ticks e ts s) = last_marked e ts s (lastQuatSent s)"
  using motionLoop_marked[of e t s] motionLoop_unmarked[of e t s] lastQuatSent_run_ticks[of e ts s]
  by blast

theorem lastQuatSent_follows_newData_witness:
  "newData (motionLoop example_env 1000 example_sensor) \<and>
   lastQuatSent (motionLoop example_env 1000 example_sensor) =
     \<lparr>qx = 1 / 2, qy = 1 / 2, qz = 1 / 2, qw = - 1 / 2\<rparr> \<and>
   \<not> newData (motionLoop example_env 1000
         (example_sensor\<lparr>lastQuatSent := \<lparr>qx = 1 / 2, qy = 1 / 2, qz = 1 / 2, qw = - 1 / 2\<rparr>\<rparr>)) \<and>
   lastQuatSent (run_ticks example_env [1000, 2000] example_sensor) =
     last_marked example_env [1000, 2000] example_sensor \<lparr>qx = 0, qy = 0, qz = 0, qw = 1\<rparr>"
proof -
  let ?sent = "example_sensor\<lparr>lastQuatSent := \<lparr>qx = 1 / 2, qy = 1 / 2, qz = 1 / 2, qw = - 1 / 2\<rparr>\<rparr>"
  have s0: "sensorOffset example_sensor = \<lparr>qx = 0, qy = 0, qz = 1, qw = 0\<rparr>" "q example_sensor = (\<lambda>_. 1 / 2)"
    and s1: "sensorOffset ?sent = \<lparr>qx = 0, qy = 0, qz = 1, qw = 0\<rparr>" "q ?sent = (\<lambda>_. 1 / 2)"
    by (simp_all add: example_sensor_def)
  have c0: "change_detected example_env (orientation_update example_env 1000 example_sensor)"
    using example_quaternion[OF s0, of 1000]
    by (simp add: change_detected_def orientation_update_fields(4))
       (simp add: example_env_def example_sensor_def close_quat_def)
  have c1: "\<not> change_detected example_env (orientation_update example_env 1000 ?sent)"
    using example_quaternion[OF s1, of 1000]
    by (simp add: change_detected_def orientation_update_fields(4))
       (simp add: example_env_def example_sensor_def close_quat_def)
  show ?thesis
    using lastQuatSent_follows_newData[of example_env 1000 example_sensor "[1000, 2000]"] c0
      lastQuatSent_follows_newData[of example_env 1000 ?sent "[]"] c1
      example_quaternion[OF s0, of 1000]
    by (simp add: motionLoop_fields) (simp add: example_sensor_def)
qed

subsection \<open>Startup\<close>

text \<open>
  C8. When \<^verbatim>\<open>imu.testConnection()\<close> fails, \<^verbatim>\<open>motionSetup\<close> does nothing after
  \<^verbatim>\<open>imu.initialize\<close> but log the fatal message: no device read, no calibration, no load of
  the stored record, and \<^verbatim>\<open>working\<close> keeps its value, so a flag that was false remains
  false. (Calling \<^verbatim>\<open>motionLoop\<close> or not is left to the caller, which reads the flag.)
\<close>

theorem connection_failure:
  "\<not> testConnection (imu_initialize e (addr s) (imu s)) \<Longrightarrow>
   motionSetup e s =
     emit (Log FATAL ''Can't connect to LSM6DS3 (0x%02x) at address 0x%02x''
             [ArgI (uint (getDeviceID (imu_initialize e (addr s) (imu s)))), ArgI (uint (addr s))])
       (s\<lparr>imu := imu_initialize e (addr s) (imu s)\<rparr>) \<and>
   working (motionSetup e s) = working s"
  by (simp add: motionSetup_def Let_def FORCE_CALIBRATION_def emit_simps)

theorem connection_failure_witness:
  "trace (motionSetup example_env (example_sensor\<lparr>imu := example_imu\<lparr>testConnection := False\<rparr>\<rparr>)) =
     [Log FATAL ''Can't connect to LSM6DS3 (0x%02x) at address 0x%02x'' [ArgI 105, ArgI 106]] \<and>
   \<not> working (motionSetup example_env (example_sensor\<lparr>imu := example_imu\<lparr>testConnection := False\<rparr>\<rparr>)) \<and>
   reads (imu (motionSetup example_env (example_sensor\<lparr>imu := example_imu\<lparr>testConnection := False\<rparr>\<rparr>))) = 0"
  using connection_failure[of example_env "example_sensor\<lparr>imu := example_imu\<lparr>testConnection := False\<rparr>\<rparr>"]
  by (simp add: example_env_def example_sensor_def example_imu_def emit_simps)

text \<open>
  C9. When the connection test passes and the configuration store holds for this sensor a
  record whose type tag is \<^verbatim>\<open>NONE\<close> or any tag other than \<^verbatim>\<open>LSM6DS3\<close>, \<^verbatim>\<open>motionSetup\<close>
  logs the warning of that case, leaves \<^verbatim>\<open>m_Calibration\<close> as it was, and sets \<^verbatim>\<open>working\<close>.
  If \<^verbatim>\<open>G_off\<close> was zero before, as in a sensor that was never calibrated, the scaler gives
  afterwards what it gives with \<^verbatim>\<open>G_off = {0, 0, 0}\<close>.
\<close>

theorem missing_calibration:
  assumes "testConnection (imu_initialize e (addr s) (imu s))"
    and "type (configuration s (sensorId s)) \<noteq> LSM6DS3"
  shows "Log WARN (if type (configuration s (sensorId s)) = NONE
                   then ''No calibration data found for sensor %d, ignoring...''
                   else ''Incompatible calibration data found for sensor %d, ignoring...'')
           [ArgI (uint (sensorId s))] \<in> set (trace (motionSetup e s)) \<and>
         m_Calibration (motionSetup e s) = m_Calibration s \<and>
         working (motionSetup e s) \<and>
         (G_off (m_Calibration s) = (\<lambda>_. 0) \<longrightarrow>
            fst (getScaledValues e (motionSetup e s)) =
            fst (getScaledValues e ((motionSetup e s)\<lparr>m_Calibration :=
                   (m_Calibration (motionSetup e s))\<lparr>G_off := (\<lambda>_. 0)\<rparr>\<rparr>)))"
proof -
  let ?s1 = "flip_gesture e
        (emit (Log INFO ''Connected to LSM6DS3 (0x%02x) at address 0x%02x''
                 [ArgI (uint (getDeviceID (imu_initialize e (addr s) (imu s)))), ArgI (uint (addr s))])
           (s\<lparr>imu := imu_initialize e (addr s) (imu s)\<rparr>))"
  have ms: "motionSetup e s = (load_calibration ?s1)\<lparr>working := True\<rparr>"
    using assms(1) by (rule motionSetup_connected)
  have id: "sensorId ?s1 = sensorId s" and cf: "configuration ?s1 = configuration s"
    and mc: "m_Calibration ?s1 = m_Calibration s"
    by (simp_all add: flip_gesture_frame emit_simps)
  have absent: "type (configuration ?s1 (sensorId ?s1)) \<noteq> LSM6DS3"
    using assms(2) by (simp add: id cf)
  note lc = load_calibration_absent[OF absent]
  have m: "m_Calibration (motionSetup e s) = m_Calibration s"
    using lc by (simp add: ms mc)
  have w: "working (motionSetup e s)"
    by (simp add: ms)
  have l: "Log WARN (if type (configuration s (sensorId s)) = NONE
                   then ''No calibration data found for sensor %d, ignoring...''
                   else ''Incompatible calibration data found for sensor %d, ignoring...'')
           [ArgI (uint (sensorId s))] \<in> set (trace (motionSetup e s))"
    using lc by (simp add: ms id cf)
  have z: "fst (getScaledValues e (motionSetup e s)) =
            fst (getScaledValues e ((motionSetup e s)\<lparr>m_Calibration :=
                   (m_Calibration (motionSetup e s))\<lparr>G_off := (\<lambda>_. 0)\<rparr>\<rparr>))"
    if "G_off (m_Calibration s) = (\<lambda>_. 0)"
    using that by (simp add: fst_getScaledValues m)
  from l m w z show ?thesis by blast
qed

theorem missing_calibration_witness:
  "Log WARN ''No calibration data found for sensor %d, ignoring...'' [ArgI 0]
     \<in> set (trace (motionSetup example_env example_sensor)) \<and>
   m_Calibration (motionSetup example_env example_sensor) = zero_calibration \<and>
   working (motionSetup example_env example_sensor) \<and>
   fst (getScaledValues example_env (motionSetup example_env example_sensor)) =
     fst (getScaledValues example_env ((motionSetup example_env example_sensor)\<lparr>m_Calibration :=
        (m_Calibration (motionSetup example_env example_sensor))\<lparr>G_off := (\<lambda>_. 0)\<rparr>\<rparr>))"
proof -
  have "testConnection (imu_initialize example_env (addr example_sensor) (imu example_sensor))"
    and "type (configuration example_sensor (sensorId example_sensor)) \<noteq> LSM6DS3"
    and "type (configuration example_sensor (sensorId example_sensor)) = NONE"
    and "G_off (m_Calibration example_sensor) = (\<lambda>_. 0)"
    and "m_Calibration example_sensor = zero_calibration"
    and "uint (sensorId example_sensor) = 0"
    by (simp_all add: example_env_def example_sensor_def example_imu_def zero_calibration_def)
  with missing_calibration[of example_env example_sensor] show ?thesis
    by simp
qed

text \<open>
  C4. The claim: a first Z reading that is face down followed, after the wait, by a second
  reading that is face up starts the calibration. The code compares the value \<^verbatim>\<open>g_az\<close> of
  the first reading again instead of the second reading, so the inner test can never hold
  (see \<open>flip_gesture_eq\<close>). Here the device reads -16384 and then 16384: the prompt is
  logged, the wait is made, both reads happen, and \<^verbatim>\<open>startCalibration\<close> is not called.
\<close>

theorem flip_gesture_stale_reading:
  "r_az (samples (imu flipped_sensor) 0) = - 16384 \<and>
   r_az (samples (imu flipped_sensor) 1) = 16384 \<and>
   trace (motionSetup example_env flipped_sensor) =
     [Log INFO ''Connected to LSM6DS3 (0x%02x) at address 0x%02x'' [ArgI 105, ArgI 106],
      Log INFO ''Flip front to confirm start calibration'' [],
      Delay 5000,
      Log WARN ''No calibration data found for sensor %d, ignoring...'' [ArgI 0],
      Log INFO ''Calibration is advised'' []] \<and>
   reads (imu (motionSetup example_env flipped_sensor)) = 2 \<and>
   m_Calibration (motionSetup example_env flipped_sensor) = zero_calibration"
proof -
  let ?s1 = "flip_gesture example_env
        (emit (Log INFO ''Connected to LSM6DS3 (0x%02x) at address 0x%02x''
                 [ArgI (uint (getDeviceID (imu_initialize example_env (addr flipped_sensor) (imu flipped_sensor)))),
                  ArgI (uint (addr flipped_sensor))])
           (flipped_sensor\<lparr>imu := imu_initialize example_env (addr flipped_sensor) (imu flipped_sensor)\<rparr>))"
  have conn: "testConnection (imu_initialize example_env (addr flipped_sensor) (imu flipped_sensor))"
    by (simp add: example_env_def flipped_sensor_def example_sensor_def example_imu_def)
  have ms: "motionSetup example_env flipped_sensor = (load_calibration ?s1)\<lparr>working := True\<rparr>"
    using conn by (rule motionSetup_connected)
  have absent: "type (configuration ?s1 (sensorId ?s1)) \<noteq> LSM6DS3"
    by (simp add: flip_gesture_frame emit_simps) (simp add: flipped_sensor_def example_sensor_def)
  have none: "type (configuration ?s1 (sensorId ?s1)) = NONE" "uint (sensorId ?s1) = 0"
    by (simp_all add: flip_gesture_frame emit_simps) (simp_all add: flipped_sensor_def example_sensor_def)
  have down: "float_of_int16 (r_az (samples (imu flipped_sensor) 0)) < - (3 / 4)"
    by (simp add: flipped_sensor_def example_sensor_def example_imu_def face_down_def float_of_int16_def)
  have g: "trace ?s1 =
     [Log INFO ''Connected to LSM6DS3 (0x%02x) at address 0x%02x'' [ArgI 105, ArgI 106],
      Log INFO ''Flip front to confirm start calibration'' [],
      Delay 5000]"
    "reads (imu ?s1) = 2" "m_Calibration ?s1 = zero_calibration"
    by (simp_all add: flip_gesture_eq getRawAccelZ_simps emit_simps example_env_def flipped_sensor_def
          example_sensor_def example_imu_def face_down_def float_of_int16_def)
  show ?thesis
    using load_calibration_absent[OF absent] g none
    by (simp add: ms load_calibration_frame)
       (simp add: flipped_sensor_def example_sensor_def example_imu_def face_down_def face_up_def)
qed

subsection \<open>Calibration\<close>

text \<open>
  C3. After \<^verbatim>\<open>startCalibration\<close> the three entries of \<^verbatim>\<open>m_Calibration.G_off\<close> are, axis by
  axis, the mean of the gyroscope values of the next 300 reads of the device, computed in
  float arithmetic. When the rounding leaves the integers up to \<open>2\<^sup>2\<^sup>4\<close> as they are, which
  binary32 does, no addition rounds, and each entry is the exact arithmetic mean of the 300
  samples, rounded once by the division.
\<close>

theorem gyro_bias_is_mean:
  "G_off (m_Calibration (startCalibration e ct s)) 0 = gyro_mean e r_gx s \<and>
   G_off (m_Calibration (startCalibration e ct s)) 1 = gyro_mean e r_gy s \<and>
   G_off (m_Calibration (startCalibration e ct s)) 2 = gyro_mean e r_gz s \<and>
   ((\<forall>k::int. \<bar>k\<bar> \<le> 2 ^ 24 \<longrightarrow> rnd e (real_of_int k) = real_of_int k) \<longrightarrow>
      G_off (m_Calibration (startCalibration e ct s)) 0 =
        rnd e (real_of_int (\<Sum>n = reads (imu s)..<reads (imu s) + 300. sint (r_gx (samples (imu s) n))) / 300) \<and>
      G_off (m_Calibration (startCalibration e ct s)) 1 =
        rnd e (real_of_int (\<Sum>n = reads (imu s)..<reads (imu s) + 300. sint (r_gy (samples (imu s) n))) / 300) \<and>
      G_off (m_Calibration (startCalibration e ct s)) 2 =
        rnd e (real_of_int (\<Sum>n = reads (imu s)..<reads (imu s) + 300. sint (r_gz (samples (imu s) n))) / 300))"
proof -
  have stored: "G_off (m_Calibration (startCalibration e ct s)) 0 = gyro_mean e r_gx s"
    "G_off (m_Calibration (startCalibration e ct s)) 1 = gyro_mean e r_gy s"
    "G_off (m_Calibration (startCalibration e ct s)) 2 = gyro_mean e r_gz s"
    by (simp_all add: startCalibration_gyro)
  show ?thesis
    using stored gyro_mean_exact[of e r_gx s] gyro_mean_exact[of e r_gy s] gyro_mean_exact[of e r_gz s]
    by simp
qed

theorem gyro_bias_is_mean_witness:
  "G_off (m_Calibration (startCalibration example_env 0 example_sensor)) 0 = 3 \<and>
   G_off (m_Calibration (startCalibration example_env 0 example_sensor)) 1 = - 2 \<and>
   G_off (m_Calibration (startCalibration example_env 0 example_sensor)) 2 = 1"
proof -
  have exact: "\<forall>k::int. \<bar>k\<bar> \<le> 2 ^ 24 \<longrightarrow> rnd example_env (real_of_int k) = real_of_int k"
    by (simp add: example_env_def)
  have dev: "rnd example_env = (\<lambda>x. x)" "reads (imu example_sensor) = 0"
    "samples (imu example_sensor) = (\<lambda>_. face_up)"
    by (simp_all add: example_env_def example_sensor_def example_imu_def)
  show ?thesis
    using gyro_bias_is_mean[of example_env 0 example_sensor] exact
    by (simp add: dev face_up_def)
qed

text \<open>
  C5. The claim: each of the 300 gyroscope samples is sent as a calibration packet tagged
  external gyro. The code sends no packet inside the gyroscope loop and one packet after it.
  On the example device the whole run of \<^verbatim>\<open>startCalibration\<close> sends a single packet with
  this tag.
\<close>

theorem gyro_telemetry_counterexample:
  "filter is_external_gyro (trace (startCalibration example_env 0 example_sensor)) =
     [SendRawCalibrationData 3 (- 2) 1 CALIBRATION_TYPE_EXTERNAL_GYRO 0] \<and>
   length (filter is_external_gyro (trace (startCalibration example_env 0 example_sensor))) \<noteq> 300"
proof -
  have exact: "\<forall>k::int. \<bar>k\<bar> \<le> 2 ^ 24 \<longrightarrow> rnd example_env (real_of_int k) = real_of_int k"
    by (simp add: example_env_def)
  have dev: "rnd example_env = (\<lambda>x. x)" "reads (imu example_sensor) = 0"
    "samples (imu example_sensor) = (\<lambda>_. face_up)" "trace example_sensor = []"
    by (simp_all add: example_env_def example_sensor_def example_imu_def)
  show ?thesis
    by (simp add: startCalibration_gyro_telemetry gyro_mean_exact[OF exact] dev face_up_def)
qed

text \<open>
  C5, as amended. The gyroscope loop sends nothing. \<^verbatim>\<open>startCalibration\<close> sends exactly one
  packet tagged external gyro, after the loop and the division; it carries the three means,
  which are the values then stored in \<^verbatim>\<open>G_off\<close>. The packet is an output only: the means
  are computed before it is sent.
\<close>

theorem gyro_telemetry_once:
  "trace (snd (gyro_loop e i G s)) = trace s \<and>
   filter is_external_gyro (trace (startCalibration e ct s)) =
     filter is_external_gyro (trace s) @
       [SendRawCalibrationData (gyro_mean e r_gx s) (gyro_mean e r_gy s) (gyro_mean e r_gz s)
          CALIBRATION_TYPE_EXTERNAL_GYRO 0] \<and>
   G_off (m_Calibration (startCalibration e ct s)) 0 = gyro_mean e r_gx s \<and>
   G_off (m_Calibration (startCalibration e ct s)) 1 = gyro_mean e r_gy s \<and>
   G_off (m_Calibration (startCalibration e ct s)) 2 = gyro_mean e r_gz s"
  by (simp add: gyro_loop_silent startCalibration_gyro_telemetry startCalibration_gyro)

theorem gyro_telemetry_once_witness:
  "filter is_external_gyro (trace (startCalibration example_env 0 (emit LedOff example_sensor))) =
     [SendRawCalibrationData (gyro_mean example_env r_gx example_sensor)
        (gyro_mean example_env r_gy example_sensor) (gyro_mean example_env r_gz example_sensor)
        CALIBRATION_TYPE_EXTERNAL_GYRO 0]"
  using gyro_telemetry_once[of example_env 0 "\<lambda>_. 0" "emit LedOff example_sensor" 0]
  by (simp add: emit_simps gyro_sum_emit gyro_mean_def) (simp add: example_sensor_def)

end
